theory Spec2Isabelle
  imports Complex_Main
begin

section \<open>The page: elements, class lists, lookups\<close>

text \<open>
  \<^verbatim>\<open>js/app.js\<close> keeps its status board in the page itself: every source has a row dot
  (an element whose class list holds \<^verbatim>\<open>status-row-dot\<close>, plus \<^verbatim>\<open>red\<close> or \<^verbatim>\<open>yellow\<close>), and
  the master light and the status text are two more elements. The page's markup is not
  part of the sources, so the page is a parameter: a list of elements in document order,
  each with its id (empty when it has none), its class list and its text.
\<close>

record element =
  elemId :: string
  classList :: "string list"
  innerText :: string

type_synonym document = "element list"

text \<open>\<^verbatim>\<open>document.getElementById(id)\<close>: the first element with that id, or null.\<close>

definition getElementById :: "string \<Rightarrow> document \<Rightarrow> element option" where
  "getElementById i d = (if i = [] then None else find (\<lambda>e. elemId e = i) d)"

text \<open>
  A write through the reference that \<^verbatim>\<open>getElementById\<close> returned changes that element
  in place: the first element with the id.
\<close>

fun updateElement :: "string \<Rightarrow> (element \<Rightarrow> element) \<Rightarrow> document \<Rightarrow> document" where
  "updateElement i f [] = []"
| "updateElement i f (e # d) = (if elemId e = i then f e # d else e # updateElement i f d)"

text \<open>\<^verbatim>\<open>document.querySelectorAll('.' + c)\<close>: the elements that carry class \<open>c\<close>.\<close>

definition querySelectorAll_class :: "string \<Rightarrow> document \<Rightarrow> element list" where
  "querySelectorAll_class c d = filter (\<lambda>e. c \<in> set (classList e)) d"

text \<open>
  \<^verbatim>\<open>classList.add(token)\<close> throws on an empty token (SyntaxError) and on a token with
  ASCII whitespace (InvalidCharacterError); otherwise it appends the token unless the
  list has it already.
\<close>

datatype dom_error = SyntaxError | InvalidCharacterError

definition asciiWhitespace :: "char \<Rightarrow> bool" where
  "asciiWhitespace c =
     (c \<in> set [CHR 0x09, CHR 0x0A, CHR 0x0C, CHR 0x0D, CHR 0x20])"

definition classList_add :: "string \<Rightarrow> string list \<Rightarrow> dom_error + string list" where
  "classList_add t cl =
     (if t = [] then Inl SyntaxError
      else if list_ex asciiWhitespace t then Inl InvalidCharacterError
      else Inr (if t \<in> set cl then cl else cl @ [t]))"

definition classList_contains :: "string \<Rightarrow> element \<Rightarrow> bool" where
  "classList_contains t e = (t \<in> set (classList e))"

section \<open>Status board\<close>

text \<open>
  The script declares \<^verbatim>\<open>function updateMasterStatus\<close> twice at top level (lines 451 and
  564). In a classic script function declarations are hoisted and the later one replaces
  the earlier, so every
  call, also the one inside the first \<^verbatim>\<open>updateStatusUI\<close>, runs the declaration of line 564,
  which is the one embedded here. The earlier body (main light yellow when a row is red)
  never runs.

  The loop over the row dots sets two flags.
\<close>

definition scanRowDots :: "element list \<Rightarrow> bool \<times> bool" where
  "scanRowDots rowDots =
     foldl (\<lambda>(hasError, hasWarning) dot.
              (if classList_contains ''red'' dot then True else hasError,
               if classList_contains ''yellow'' dot then True else hasWarning))
           (False, False) rowDots"

definition setInnerText :: "string \<Rightarrow> string \<Rightarrow> document \<Rightarrow> document" where
  "setInnerText i t d = updateElement i (\<lambda>e. e\<lparr>innerText := t\<rparr>) d"

definition setMasterLight :: "string \<Rightarrow> document \<Rightarrow> document" where
  \<comment> \<open>\<^verbatim>\<open>masterLight.className = 'status-dot'; masterLight.classList.add(c)\<close>\<close>
  "setMasterLight c d =
     updateElement ''master-status-light''
       (\<lambda>e. e\<lparr>classList := (case classList_add c [''status-dot''] of
                                Inr cl \<Rightarrow> cl | Inl _ \<Rightarrow> [''status-dot''])\<rparr>) d"

definition updateMasterStatus :: "document \<Rightarrow> document" where
  "updateMasterStatus d =
     (let rowDots = querySelectorAll_class ''status-row-dot'' d;
          (hasError, hasWarning) = scanRowDots rowDots
      in case getElementById ''master-status-light'' d of
           None \<Rightarrow> d
         | Some masterLight \<Rightarrow>
             if hasError then
               setInnerText ''status-text'' ''System Offline'' (setMasterLight ''red'' d)
             else if hasWarning then
               setInnerText ''status-text'' ''Syncing Data...'' (setMasterLight ''yellow'' d)
             else
               setInnerText ''status-text'' ''Live Model Connected'' (setMasterLight ''active'' d))"

text \<open>
  \<^verbatim>\<open>updateStatusUI(health)\<close>. The health object is the list of its entries in the order of
  \<^verbatim>\<open>Object.keys\<close>. \<^verbatim>\<open>mapping[key]\<close> is \<^verbatim>\<open>undefined\<close> for a key the table does not have, and
  \<^verbatim>\<open>getElementById\<close> turns its argument into a string, so such a key looks for an element
  whose id is the text \<^verbatim>\<open>undefined\<close>. (Keys that name a member of \<^verbatim>\<open>Object.prototype\<close>, such
  as \<^verbatim>\<open>constructor\<close>, read a function whose text is no id either; the model takes them with
  the other unknown keys.)
\<close>

type_synonym health = "(string \<times> string) list"

definition mapping :: "string \<Rightarrow> string option" where
  "mapping key =
     (if key = ''maritime'' then Some ''dot-maritime''
      else if key = ''us_data'' then Some ''dot-us''
      else if key = ''canada_data'' then Some ''dot-canada''
      else if key = ''integrity'' then Some ''dot-gbif''
      else if key = ''infrastructure'' then Some ''dot-glfc''
      else None)"

definition dotIdOf :: "string \<Rightarrow> string" where
  "dotIdOf key = (case mapping key of Some i \<Rightarrow> i | None \<Rightarrow> ''undefined'')"

text \<open>
  One pass of the \<^verbatim>\<open>forEach\<close>. The class list is reset before \<^verbatim>\<open>classList.add\<close> runs, so
  when the add throws the dot stays reset, the remaining keys are not visited and the
  master status is not recomputed: the result carries the error and the page as it is then.
\<close>

fun updateDots :: "health \<Rightarrow> document \<Rightarrow> dom_error option \<times> document" where
  "updateDots [] d = (None, d)"
| "updateDots ((key, v) # h) d =
     (let dotId = dotIdOf key in
      case getElementById dotId d of
        None \<Rightarrow> updateDots h d
      | Some dot \<Rightarrow>
          (let d1 = updateElement dotId (\<lambda>e. e\<lparr>classList := [''status-row-dot'']\<rparr>) d in
           if v \<noteq> ''green'' then
             (case classList_add v [''status-row-dot''] of
                Inl err \<Rightarrow> (Some err, d1)
              | Inr cl \<Rightarrow> updateDots h (updateElement dotId (\<lambda>e. e\<lparr>classList := cl\<rparr>) d1))
           else updateDots h d1))"

definition originalUpdateStatusUI :: "health \<Rightarrow> document \<Rightarrow> dom_error option \<times> document" where
  "originalUpdateStatusUI h d =
     (case updateDots h d of
        (Some err, d') \<Rightarrow> (Some err, d')
      | (None, d') \<Rightarrow> (None, updateMasterStatus d'))"

text \<open>
  Line 596 rebinds \<^verbatim>\<open>updateStatusUI\<close> to a wrapper that runs the original and then
  \<^verbatim>\<open>updateMasterStatus\<close> once more. The rebinding runs while \<^verbatim>\<open>loadAILayer\<close> is still
  waiting for its fetch, so every call \<^verbatim>\<open>loadAILayer\<close> makes reaches the wrapper.
\<close>

definition updateStatusUI :: "health \<Rightarrow> document \<Rightarrow> dom_error option \<times> document" where
  "updateStatusUI h d =
     (case originalUpdateStatusUI h d of
        (Some err, d') \<Rightarrow> (Some err, d')
      | (None, d') \<Rightarrow> (None, updateMasterStatus d'))"

text \<open>What a reader of the board sees: the master light's classes and the status text.\<close>

definition masterLightClasses :: "document \<Rightarrow> string list option" where
  "masterLightClasses d = map_option classList (getElementById ''master-status-light'' d)"

definition statusText :: "document \<Rightarrow> string option" where
  "statusText d = map_option innerText (getElementById ''status-text'' d)"

section \<open>Risk regions\<close>

text \<open>
  A region of the \<^verbatim>\<open>/predict\<close> response: \<^verbatim>\<open>id\<close> (which a response may leave out),
  \<^verbatim>\<open>geometry\<close> and \<^verbatim>\<open>properties\<close>. The risk score is a JSON number; the script only
  compares it with the literals 0.5 and 0.8. Both sides of a comparison are read to
  doubles by the same rounding and doubles compare exactly, so the score is modelled by
  the number it denotes and the literals by 1/2 and 4/5.
\<close>

definition riskHigh :: string where "riskHigh = ''#ef4444''"

definition riskMed :: string where "riskMed = ''#f59e0b''"

definition riskLow :: string where "riskLow = ''#10b981''"

record props =
  species :: string
  risk_score :: rat
  risk_label :: string
  confidence :: string
  explanation :: string
  drivers :: "string list"
  citations :: "(string \<times> string) list option"

type_synonym geometry = "(rat \<times> rat) list list"

record region =
  region_id :: "string option"
  region_geometry :: geometry
  properties :: props

record style =
  color :: string
  weight :: nat
  opacity :: rat
  fillColor :: string
  fillOpacity :: rat
  className :: string

definition getStyle :: "props \<Rightarrow> style" where
  "getStyle p =
     (let score = risk_score p;
          c0 = riskLow;
          c1 = (if score > 1/2 then riskMed else c0);
          c2 = (if score > 4/5 then riskHigh else c1)
      in \<lparr>color = c2, weight = 2, opacity = 4/5, fillColor = c2, fillOpacity = 7/20,
          className = (if score > 4/5 then ''risk-polygon-high'' else [])\<rparr>)"


text \<open>
  The layer \<^verbatim>\<open>L.geoJSON\<close> builds for a region, with the \<^verbatim>\<open>regionId\<close> the script attaches
  for \<^verbatim>\<open>zoomToGrid\<close>; the properties stay with the layer for its popup and its click.
\<close>

record geoLayer =
  regionId :: "string option"
  layerGeometry :: geometry
  layerStyle :: style
  layerProps :: props

definition geoJSON :: "region \<Rightarrow> geoLayer" where
  "geoJSON r = \<lparr>regionId = region_id r, layerGeometry = region_geometry r,
                layerStyle = getStyle (properties r), layerProps = properties r\<rparr>"

text \<open>
  \<^verbatim>\<open>renderRiskPolygons\<close>: for each region, in order, one layer added to the
  \<^verbatim>\<open>risk_overlay\<close> group. A layer group keeps its layers in the order they were added.
\<close>

definition renderRiskPolygons :: "region list \<Rightarrow> geoLayer list \<Rightarrow> geoLayer list" where
  "renderRiskPolygons regions overlay =
     foldl (\<lambda>ov region. ov @ [geoJSON region]) overlay regions"

section \<open>Alerts and grid links\<close>

record alert =
  alert_type :: string
  alert_title :: string
  alert_detail :: string
  alert_timestamp :: string

text \<open>
  \<^verbatim>\<open>alert.detail.replace(/(grid-[\w-]+)/g, ...)\<close>. Without the \<^verbatim>\<open>i\<close> and \<^verbatim>\<open>u\<close> flags \<^verbatim>\<open>\w\<close> is
  a letter of either case, a digit or the underscore. A global replace looks for the
  leftmost match from where the last one ended; the class is greedy and nothing follows
  it, so a match runs on to the last character of the class.
\<close>

definition wordChar :: "char \<Rightarrow> bool" where
  "wordChar c =
     (c \<in> set ''abcdefghijklmnopqrstuvwxyzABCDEFGHIJKLMNOPQRSTUVWXYZ0123456789_'')"

definition gridChar :: "char \<Rightarrow> bool" where
  "gridChar c = (wordChar c \<or> c = CHR ''-'')"

definition matchesAt :: "string \<Rightarrow> bool" where
  "matchesAt s =
     (take 5 s = ''grid-'' \<and> (case drop 5 s of [] \<Rightarrow> False | c # _ \<Rightarrow> gridChar c))"

datatype segment = Plain char | GridRef string

function scanDetail :: "string \<Rightarrow> segment list" where
  "scanDetail [] = []"
| "scanDetail (c # cs) =
     (if matchesAt (c # cs)
      then GridRef (''grid-'' @ takeWhile gridChar (drop 5 (c # cs)))
             # scanDetail (dropWhile gridChar (drop 5 (c # cs)))
      else Plain c # scanDetail cs)"
  by pat_completeness auto
termination
proof (relation "measure length")
  fix c cs
  have "length (dropWhile gridChar (drop 5 (c # cs))) \<le> length (drop 5 (c # cs))"
    by (rule length_dropWhile_le)
  then show "(dropWhile gridChar (drop 5 (c # cs)), c # cs) \<in> measure length"
    by simp
qed simp_all


definition gridLink :: "string \<Rightarrow> string" where
  "gridLink t = ''<span class='' @ [CHR 0x22] @ ''grid-link'' @ [CHR 0x22]
                @ '' onclick='' @ [CHR 0x22] @ ''zoomToGrid('' @ [CHR 0x27] @ t @ [CHR 0x27]
                @ '')'' @ [CHR 0x22] @ ''>'' @ t @ ''</span>''"

definition enrichDetail :: "string \<Rightarrow> string" where
  "enrichDetail detail =
     concat (map (\<lambda>seg. case seg of Plain c \<Rightarrow> [c] | GridRef t \<Rightarrow> gridLink t)
                 (scanDetail detail))"


text \<open>
  One item of the feed, by the values the template interpolates; the feed container
  holds the page's own markup, the \<^verbatim>\<open>No active alerts\<close> line or the items.
\<close>

record feed_item =
  item_class :: string
  item_type :: string
  item_timestamp :: string
  item_highlight :: string
  item_title :: string
  item_detail :: string

datatype feed_content = PageMarkup | NoActiveAlerts | FeedItems "feed_item list"

definition feedItem :: "alert \<Rightarrow> feed_item" where
  "feedItem a =
     \<lparr>item_class = (if alert_type a = ''CRITICAL'' then ''critical-alert'' else []),
      item_type = alert_type a,
      item_timestamp = alert_timestamp a,
      item_highlight = (if alert_type a = ''CRITICAL'' then ''critical-highlight''
                        else ''signal-highlight''),
      item_title = alert_title a,
      item_detail = enrichDetail (alert_detail a)\<rparr>"

text \<open>\<open>None\<close> is a page with no \<^verbatim>\<open>.feed-container\<close>: the function returns at once.\<close>

definition updateAlertsFeed :: "alert list \<Rightarrow> feed_content option \<Rightarrow> feed_content option" where
  "updateAlertsFeed al container =
     (case container of
        None \<Rightarrow> None
      | Some _ \<Rightarrow> if al = [] then Some NoActiveAlerts
                  else Some (FeedItems (map feedItem al)))"

section \<open>Application state\<close>

record location =
  port :: string
  protocol :: string

datatype failure =
    FetchRejected
  | ApiResponseError
  | JsonSyntaxError
  | TypeError
  | DomException dom_error

datatype console_entry =
    ConsoleLog string
  | ConsoleWarn string
  | ConsoleError string failure

record point =
  pt_lat :: rat
  pt_lon :: rat
  pt_type :: "string option"
  pt_name :: string
  pt_waterbody :: "string option"
  pt_fc :: "string option"

datatype icon = Shield | TestTube | Trap | Warning

record marker =
  marker_latlng :: "rat \<times> rat"
  marker_radius :: nat
  marker_color :: string
  marker_icon :: icon
  marker_point :: point

record app =
  page :: document
  risk_overlay :: "geoLayer list"
  barriers :: "marker list"
  treatments :: "marker list"
  trapping :: "marker list"
  feedContainer :: "feed_content option"
  sidePanel :: "props option"
  mapFocus :: "geoLayer option"
  console :: "console_entry list"
  window_location :: location

definition apiUrl :: "location \<Rightarrow> string \<Rightarrow> string" where
  "apiUrl loc path =
     (if port loc = ''8080'' \<or> protocol loc = ''file:''
      then ''http://127.0.0.1:8000'' @ path else path)"

definition consoleAdd :: "console_entry \<Rightarrow> app \<Rightarrow> app" where
  "consoleAdd e s = s\<lparr>console := console s @ [e]\<rparr>"

text \<open>What a fetch followed by \<^verbatim>\<open>response.json()\<close> can come to.\<close>

datatype 'a fetched = NetworkError | NotOk | BodyNotJson | Json 'a

section \<open>Loading the predictions\<close>

record metadata =
  meta_health :: "health option"

record payload =
  regions :: "region list option"
  alerts :: "alert list option"
  metadata :: "metadata option"

text \<open>
  \<^verbatim>\<open>updateSidePanel\<close> reads \<^verbatim>\<open>container.style\<close> at once, which throws when the page has no
  \<^verbatim>\<open>prediction-content\<close>; the card's new content, written by a timer 200 ms later, is the
  field \<open>sidePanel\<close>.
\<close>

definition updateSidePanel :: "props \<Rightarrow> app \<Rightarrow> failure option \<times> app" where
  "updateSidePanel p s =
     (case getElementById ''prediction-content'' (page s) of
        None \<Rightarrow> (Some TypeError, s)
      | Some container \<Rightarrow> (None, s\<lparr>sidePanel := Some p\<rparr>))"

definition degradedHealth :: health where
  "degradedHealth =
     [(''maritime'', ''green''), (''us_data'', ''red''),
      (''canada_data'', ''red''), (''integrity'', ''red'')]"

text \<open>
  The body of the \<^verbatim>\<open>try\<close> after the fetch, for a response that parsed, statement by
  statement: the regions, the feed when the response has alerts, the side panel when
  there is a first region, the status board when the response has a health object.
\<close>

definition applyAlerts :: "payload \<Rightarrow> app \<Rightarrow> app" where
  "applyAlerts data s =
     (case alerts data of
        None \<Rightarrow> s
      | Some al \<Rightarrow> s\<lparr>feedContainer := updateAlertsFeed al (feedContainer s)\<rparr>)"

definition showFirstRegion :: "region list \<Rightarrow> app \<Rightarrow> failure option \<times> app" where
  "showFirstRegion rs s =
     (case rs of [] \<Rightarrow> (None, s) | r # _ \<Rightarrow> updateSidePanel (properties r) s)"

definition applyHealth :: "payload \<Rightarrow> app \<Rightarrow> failure option \<times> app" where
  "applyHealth data s =
     (case metadata data of
        None \<Rightarrow> (None, s)
      | Some m \<Rightarrow>
          (case meta_health m of
             None \<Rightarrow> (None, s)
           | Some h \<Rightarrow>
               (case updateStatusUI h (page s) of
                  (err, d) \<Rightarrow> (map_option DomException err, s\<lparr>page := d\<rparr>))))"

definition renderResponse :: "payload \<Rightarrow> app \<Rightarrow> failure option \<times> app" where
  "renderResponse data s =
     (case regions data of
        None \<Rightarrow> (Some TypeError, s)
      | Some rs \<Rightarrow>
          (let s1 = s\<lparr>risk_overlay := renderRiskPolygons rs (risk_overlay s)\<rparr>;
               s2 = applyAlerts data s1
           in case showFirstRegion rs s2 of
                (Some err, s3) \<Rightarrow> (Some err, s3)
              | (None, s3) \<Rightarrow> applyHealth data s3))"

definition tryLoadAILayer :: "payload fetched \<Rightarrow> app \<Rightarrow> failure option \<times> app" where
  "tryLoadAILayer response s =
     (let s0 = consoleAdd (ConsoleLog (''Fetching AI Predictions from: ''
                                        @ apiUrl (window_location s) ''/predict''))
                 (consoleAdd (ConsoleLog ''Fetching AI Predictions from Hybrid Backend...'') s)
      in case response of
           NetworkError \<Rightarrow> (Some FetchRejected, s0)
         | NotOk \<Rightarrow> (Some ApiResponseError, s0)
         | BodyNotJson \<Rightarrow> (Some JsonSyntaxError, s0)
         | Json data \<Rightarrow> renderResponse data s0)"

text \<open>
  The \<^verbatim>\<open>catch\<close>: log, then the status update with the fixed degraded health. That update
  cannot throw, its values being \<^verbatim>\<open>green\<close> and \<^verbatim>\<open>red\<close> (lemma \<open>degradedHealth_no_throw\<close>).
\<close>

definition loadAILayer :: "payload fetched \<Rightarrow> app \<Rightarrow> app" where
  "loadAILayer response s =
     (case tryLoadAILayer response s of
        (None, s') \<Rightarrow> s'
      | (Some err, s') \<Rightarrow>
          (let s1 = consoleAdd (ConsoleError ''Failed to load AI Layer:'' err) s'
           in s1\<lparr>page := snd (updateStatusUI degradedHealth (page s1))\<rparr>))"

section \<open>Zooming to a grid cell\<close>

text \<open>
  \<^verbatim>\<open>zoomToGrid(gridId)\<close> walks the overlay and keeps the last layer whose \<^verbatim>\<open>regionId\<close> is
  strictly equal to the argument. The argument is the whole match of the feed's link,
  \<^verbatim>\<open>grid-\<close> included.
\<close>

definition findLayer :: "string \<Rightarrow> geoLayer list \<Rightarrow> geoLayer option" where
  "findLayer gridId layers =
     foldl (\<lambda>foundLayer layer. if regionId layer = Some gridId then Some layer else foundLayer)
           None layers"

definition zoomToGrid :: "string \<Rightarrow> app \<Rightarrow> app" where
  "zoomToGrid gridId s =
     (case findLayer gridId (risk_overlay s) of
        Some foundLayer \<Rightarrow> s\<lparr>mapFocus := Some foundLayer\<rparr>
      | None \<Rightarrow> consoleAdd (ConsoleWarn (''Grid '' @ gridId @ '' not found on map.'')) s)"

section \<open>Loading the infrastructure\<close>

datatype layer_group = BarriersGroup | TreatmentsGroup | TrappingGroup

definition pointMarker :: "point \<Rightarrow> string \<Rightarrow> layer_group \<times> marker" where
  "pointMarker pt ty =
     (let (col, radius, grp, ic) =
            (if ty = ''treatment'' then (''#ec4899'', 4, TreatmentsGroup, TestTube)
             else if ty = ''trapping'' then (''#facc15'', 6, TrappingGroup, Trap)
             else if ty = ''barrier'' \<and> pt_fc pt = Some ''No''
               then (''#f87171'', 5, BarriersGroup, Warning)
             else (''#38bdf8'', 5, BarriersGroup, Shield))
      in (grp, \<lparr>marker_latlng = (pt_lat pt, pt_lon pt), marker_radius = radius,
                marker_color = col, marker_icon = ic, marker_point = pt\<rparr>))"

definition addToGroup :: "layer_group \<Rightarrow> marker \<Rightarrow> app \<Rightarrow> app" where
  "addToGroup g m s =
     (case g of
        BarriersGroup \<Rightarrow> s\<lparr>barriers := barriers s @ [m]\<rparr>
      | TreatmentsGroup \<Rightarrow> s\<lparr>treatments := treatments s @ [m]\<rparr>
      | TrappingGroup \<Rightarrow> s\<lparr>trapping := trapping s @ [m]\<rparr>)"

text \<open>
  The popup's heading calls \<^verbatim>\<open>pt.type.charAt\<close>, which throws for a point without a type,
  before the marker is added; the markers of the points before it stay.
\<close>

fun addPoints :: "point list \<Rightarrow> app \<Rightarrow> failure option \<times> app" where
  "addPoints [] s = (None, s)"
| "addPoints (pt # pts) s =
     (case pt_type pt of
        None \<Rightarrow> (Some TypeError, s)
      | Some ty \<Rightarrow> (case pointMarker pt ty of (g, m) \<Rightarrow> addPoints pts (addToGroup g m s)))"

definition tryLoadInfrastructure ::
  "point list option fetched \<Rightarrow> app \<Rightarrow> failure option \<times> app" where
  "tryLoadInfrastructure response s =
     (let s0 = consoleAdd (ConsoleLog (''Fetching GLFC Infrastructure from: ''
                                        @ apiUrl (window_location s) ''/infrastructure'')) s
      in case response of
           NetworkError \<Rightarrow> (Some FetchRejected, s0)
         | NotOk \<Rightarrow> (Some ApiResponseError, s0)
         | BodyNotJson \<Rightarrow> (Some JsonSyntaxError, s0)
         | Json None \<Rightarrow> (Some TypeError, s0)
         | Json (Some pts) \<Rightarrow> addPoints pts s0)"

definition loadInfrastructure :: "point list option fetched \<Rightarrow> app \<Rightarrow> app" where
  "loadInfrastructure response s =
     (case tryLoadInfrastructure response s of
        (None, s') \<Rightarrow> s'
      | (Some err, s') \<Rightarrow> consoleAdd (ConsoleError ''Infrastructure loading failed:'' err) s')"

section \<open>Notions used in the statements\<close>







text \<open>Some row dot of the page carries class \<open>c\<close>.\<close>

definition anyRowDot :: "string \<Rightarrow> document \<Rightarrow> bool" where
  "anyRowDot c d = list_ex (classList_contains c) (querySelectorAll_class ''status-row-dot'' d)"



section \<open>Sample data\<close>

text \<open>
  A page with the elements the script looks up by id: the five row dots, the master
  light, the status text and the side panel's card.
\<close>

definition boardPage :: document where
  "boardPage =
     [\<lparr>elemId = ''master-status-light'', classList = [''status-dot''], innerText = []\<rparr>,
      \<lparr>elemId = ''status-text'', classList = [], innerText = ''Connecting...''\<rparr>,
      \<lparr>elemId = ''dot-maritime'', classList = [''status-row-dot''], innerText = []\<rparr>,
      \<lparr>elemId = ''dot-us'', classList = [''status-row-dot''], innerText = []\<rparr>,
      \<lparr>elemId = ''dot-canada'', classList = [''status-row-dot''], innerText = []\<rparr>,
      \<lparr>elemId = ''dot-gbif'', classList = [''status-row-dot''], innerText = []\<rparr>,
      \<lparr>elemId = ''dot-glfc'', classList = [''status-row-dot''], innerText = []\<rparr>,
      \<lparr>elemId = ''prediction-content'', classList = [], innerText = []\<rparr>]"

definition startState :: app where
  "startState =
     \<lparr>page = boardPage, risk_overlay = [], barriers = [], treatments = [], trapping = [],
      feedContainer = Some PageMarkup, sidePanel = None, mapFocus = None, console = [],
      window_location = \<lparr>port = ''8080'', protocol = ''http:''\<rparr>\<rparr>"

definition propsWithScore :: "rat \<Rightarrow> props" where
  "propsWithScore s =
     \<lparr>species = ''Silver Carp'', risk_score = s, risk_label = ''Elevated'',
      confidence = ''High'', explanation = ''Flow velocity within spawning range'',
      drivers = [''Flow'', ''Temperature''], citations = None\<rparr>"

definition sampleRegion :: "string option \<Rightarrow> rat \<Rightarrow> region" where
  "sampleRegion i s =
     \<lparr>region_id = i, region_geometry = [[(44, -87), (44, -86), (45, -86), (44, -87)]],
      properties = propsWithScore s\<rparr>"

definition samplePayload :: "region list \<Rightarrow> payload" where
  "samplePayload rs = \<lparr>regions = Some rs, alerts = Some [], metadata = None\<rparr>"

definition samplePoint :: "string option \<Rightarrow> point" where
  "samplePoint ty =
     \<lparr>pt_lat = 45, pt_lon = -84, pt_type = ty, pt_name = ''Cheboygan Dam'',
      pt_waterbody = None, pt_fc = Some ''Yes''\<rparr>"

section \<open>Facts about the page and the status board\<close>

subsection \<open>Lookups and writes\<close>


lemma getElementById_SomeD:
  "getElementById i d = Some e \<Longrightarrow> e \<in> set d \<and> elemId e = i \<and> i \<noteq> []"
  by (auto simp: getElementById_def find_Some_iff split: if_splits)

lemma getElementById_updateElement_same:
  "(\<And>e. elemId (f e) = elemId e) \<Longrightarrow> i \<noteq> [] \<Longrightarrow>
   getElementById i (updateElement i f d) = map_option f (getElementById i d)"
  by (induction d) (auto simp: getElementById_def)

lemma getElementById_updateElement_other:
  "(\<And>e. elemId (f e) = elemId e) \<Longrightarrow> i \<noteq> j \<Longrightarrow>
   getElementById j (updateElement i f d) = getElementById j d"
  by (induction d) (auto simp: getElementById_def)

subsection \<open>The master status\<close>

lemma scanRowDots_foldl:
  "foldl (\<lambda>(hasError, hasWarning) dot.
              (if classList_contains ''red'' dot then True else hasError,
               if classList_contains ''yellow'' dot then True else hasWarning))
           (a, b) ds
   = (a \<or> list_ex (classList_contains ''red'') ds, b \<or> list_ex (classList_contains ''yellow'') ds)"
  by (induction ds arbitrary: a b) auto

lemma scanRowDots_eq:
  "scanRowDots ds = (list_ex (classList_contains ''red'') ds, list_ex (classList_contains ''yellow'') ds)"
  unfolding scanRowDots_def by (simp add: scanRowDots_foldl)

lemma updateMasterStatus_eq:
  "updateMasterStatus d =
     (if getElementById ''master-status-light'' d = None then d
      else if anyRowDot ''red'' d then
        setInnerText ''status-text'' ''System Offline'' (setMasterLight ''red'' d)
      else if anyRowDot ''yellow'' d then
        setInnerText ''status-text'' ''Syncing Data...'' (setMasterLight ''yellow'' d)
      else setInnerText ''status-text'' ''Live Model Connected'' (setMasterLight ''active'' d))"
  by (auto simp: updateMasterStatus_def scanRowDots_eq anyRowDot_def Let_def split: option.splits)

lemma masterLightClasses_set:
  "c \<in> {''red'', ''yellow'', ''active''} \<Longrightarrow>
   masterLightClasses (setInnerText ''status-text'' t (setMasterLight c d))
     = map_option (\<lambda>_. [''status-dot'', c]) (getElementById ''master-status-light'' d)"
  by (auto simp: masterLightClasses_def setInnerText_def setMasterLight_def
      getElementById_updateElement_other getElementById_updateElement_same
      classList_add_def asciiWhitespace_def option.map_comp comp_def)

lemma statusText_set:
  "statusText (setInnerText ''status-text'' t (setMasterLight c d))
     = map_option (\<lambda>_. t) (statusText d)"
  by (simp add: statusText_def setInnerText_def setMasterLight_def
      getElementById_updateElement_other getElementById_updateElement_same
      option.map_comp comp_def)

lemma getElementById_set_other:
  "j \<noteq> ''master-status-light'' \<Longrightarrow> j \<noteq> ''status-text'' \<Longrightarrow>
   getElementById j (setInnerText ''status-text'' t (setMasterLight c d)) = getElementById j d"
  by (simp add: setInnerText_def setMasterLight_def getElementById_updateElement_other)

lemma getElementById_updateMasterStatus_other:
  "j \<noteq> ''master-status-light'' \<Longrightarrow> j \<noteq> ''status-text'' \<Longrightarrow>
   getElementById j (updateMasterStatus d) = getElementById j d"
  by (simp add: updateMasterStatus_eq getElementById_set_other)

lemma anyRowDot_by_id:
  "getElementById i d = Some e \<Longrightarrow> ''status-row-dot'' \<in> set (classList e) \<Longrightarrow>
   c \<in> set (classList e) \<Longrightarrow> anyRowDot c d"
  by (auto simp: anyRowDot_def list_ex_iff querySelectorAll_class_def classList_contains_def
      dest: getElementById_SomeD)

lemma updateMasterStatus_red:
  assumes "getElementById ''master-status-light'' d \<noteq> None" "anyRowDot ''red'' d"
  shows "masterLightClasses (updateMasterStatus d) = Some [''status-dot'', ''red'']"
    and "statusText (updateMasterStatus d) = map_option (\<lambda>_. ''System Offline'') (statusText d)"
  using assms by (auto simp: updateMasterStatus_eq masterLightClasses_set statusText_set)

lemma master_present_updateMasterStatus:
  "(getElementById ''master-status-light'' (updateMasterStatus d) = None)
     = (getElementById ''master-status-light'' d = None)"
  by (auto simp: updateMasterStatus_eq setInnerText_def setMasterLight_def
      getElementById_updateElement_other getElementById_updateElement_same)

subsection \<open>Source names outside the table\<close>






subsection \<open>The degraded health of the catch\<close>

lemma degraded_updateDots:
  "fst (updateDots degradedHealth d) = None
   \<and> map_option classList (getElementById ''dot-maritime'' (snd (updateDots degradedHealth d)))
       = map_option (\<lambda>_. [''status-row-dot'']) (getElementById ''dot-maritime'' d)
   \<and> map_option classList (getElementById ''dot-us'' (snd (updateDots degradedHealth d)))
       = map_option (\<lambda>_. [''status-row-dot'', ''red'']) (getElementById ''dot-us'' d)
   \<and> map_option classList (getElementById ''dot-canada'' (snd (updateDots degradedHealth d)))
       = map_option (\<lambda>_. [''status-row-dot'', ''red'']) (getElementById ''dot-canada'' d)
   \<and> map_option classList (getElementById ''dot-gbif'' (snd (updateDots degradedHealth d)))
       = map_option (\<lambda>_. [''status-row-dot'', ''red'']) (getElementById ''dot-gbif'' d)
   \<and> (\<forall>j. j \<notin> {''dot-maritime'', ''dot-us'', ''dot-canada'', ''dot-gbif''} \<longrightarrow>
         getElementById j (snd (updateDots degradedHealth d)) = getElementById j d)"
  by (auto simp: degradedHealth_def dotIdOf_def mapping_def Let_def classList_add_def
      asciiWhitespace_def getElementById_updateElement_other getElementById_updateElement_same
      split: option.splits)

lemma degraded_updateDots_None: "fst (updateDots degradedHealth d) = None"
  using degraded_updateDots [of d] by (rule conjunct1)

lemma degraded_updateDots_other:
  "j \<notin> {''dot-maritime'', ''dot-us'', ''dot-canada'', ''dot-gbif''} \<Longrightarrow>
   getElementById j (snd (updateDots degradedHealth d)) = getElementById j d"
  using degraded_updateDots [of d] by blast

lemma degraded_updateDots_red:
  "i \<in> {''dot-us'', ''dot-canada'', ''dot-gbif''} \<Longrightarrow>
   map_option classList (getElementById i (snd (updateDots degradedHealth d)))
     = map_option (\<lambda>_. [''status-row-dot'', ''red'']) (getElementById i d)"
  using degraded_updateDots [of d] by blast

lemma degraded_updateDots_maritime:
  "map_option classList (getElementById ''dot-maritime'' (snd (updateDots degradedHealth d)))
     = map_option (\<lambda>_. [''status-row-dot'']) (getElementById ''dot-maritime'' d)"
  using degraded_updateDots [of d] by blast

lemma degraded_updateStatusUI_eq:
  "updateStatusUI degradedHealth d
     = (None, updateMasterStatus (updateMasterStatus (snd (updateDots degradedHealth d))))"
  using degraded_updateDots_None [of d]
  by (cases "updateDots degradedHealth d")
     (simp add: updateStatusUI_def originalUpdateStatusUI_def)

lemma degradedHealth_no_throw: "fst (updateStatusUI degradedHealth d) = None"
  by (simp add: degraded_updateStatusUI_eq)

lemma degraded_updateStatusUI:
  "snd (updateStatusUI degradedHealth d)
     = updateMasterStatus (updateMasterStatus (snd (updateDots degradedHealth d)))"
  by (simp add: degraded_updateStatusUI_eq)

lemma degraded_master_red:
  assumes master: "getElementById ''master-status-light'' d \<noteq> None"
      and dot: "getElementById ''dot-us'' d \<noteq> None \<or> getElementById ''dot-canada'' d \<noteq> None
                \<or> getElementById ''dot-gbif'' d \<noteq> None"
  shows "masterLightClasses (snd (updateStatusUI degradedHealth d)) = Some [''status-dot'', ''red'']
       \<and> statusText (snd (updateStatusUI degradedHealth d))
           = map_option (\<lambda>_. ''System Offline'') (statusText d)"
proof -
  let ?d1 = "snd (updateDots degradedHealth d)"
  let ?d2 = "updateMasterStatus ?d1"
  from dot obtain i where i: "i \<in> {''dot-us'', ''dot-canada'', ''dot-gbif''}"
    and pres: "getElementById i d \<noteq> None" by blast
  have cls: "map_option classList (getElementById i ?d1) = Some [''status-row-dot'', ''red'']"
    using degraded_updateDots_red [OF i, of d] pres by auto
  have red1: "anyRowDot ''red'' d'" if same: "getElementById i d' = getElementById i ?d1" for d'
  proof -
    from cls same obtain e where "getElementById i d' = Some e"
      "classList e = [''status-row-dot'', ''red'']" by auto
    then show ?thesis by (auto intro: anyRowDot_by_id)
  qed
  have i_other: "i \<noteq> ''master-status-light''" "i \<noteq> ''status-text''"
    using i by auto
  have m1: "getElementById ''master-status-light'' ?d1 \<noteq> None"
    using master by (simp add: degraded_updateDots_other)
  have st1: "statusText ?d1 = statusText d"
    by (simp add: statusText_def degraded_updateDots_other)
  have r1: "anyRowDot ''red'' ?d1" by (rule red1) simp
  have r2: "anyRowDot ''red'' ?d2"
    by (rule red1) (simp add: getElementById_updateMasterStatus_other i_other)
  have m2: "getElementById ''master-status-light'' ?d2 \<noteq> None"
    using m1 by (simp add: master_present_updateMasterStatus)
  have "statusText (updateMasterStatus ?d2) = map_option (\<lambda>_. ''System Offline'') (statusText ?d2)"
    by (rule updateMasterStatus_red [OF m2 r2])
  also have "statusText ?d2 = map_option (\<lambda>_. ''System Offline'') (statusText ?d1)"
    by (rule updateMasterStatus_red [OF m1 r1])
  finally have "statusText (updateMasterStatus ?d2)
      = map_option (\<lambda>_. ''System Offline'') (statusText d)"
    by (simp add: st1 option.map_comp comp_def)
  with updateMasterStatus_red(1) [OF m2 r2] show ?thesis
    by (simp add: degraded_updateStatusUI)
qed

lemma degraded_dot_red:
  "i \<in> {''dot-us'', ''dot-canada'', ''dot-gbif''} \<Longrightarrow>
   map_option classList (getElementById i (snd (updateStatusUI degradedHealth d)))
     = map_option (\<lambda>_. [''status-row-dot'', ''red'']) (getElementById i d)"
proof -
  assume i: "i \<in> {''dot-us'', ''dot-canada'', ''dot-gbif''}"
  then have "i \<noteq> ''master-status-light''" "i \<noteq> ''status-text''" by auto
  then show ?thesis
    by (simp add: degraded_updateStatusUI getElementById_updateMasterStatus_other
        degraded_updateDots_red [OF i])
qed

lemma degraded_dot_maritime:
  "map_option classList (getElementById ''dot-maritime'' (snd (updateStatusUI degradedHealth d)))
     = map_option (\<lambda>_. [''status-row-dot'']) (getElementById ''dot-maritime'' d)"
  by (simp add: degraded_updateStatusUI getElementById_updateMasterStatus_other
      degraded_updateDots_maritime)

lemma degraded_dot_glfc:
  "getElementById ''dot-glfc'' (snd (updateStatusUI degradedHealth d))
     = getElementById ''dot-glfc'' d"
  by (simp add: degraded_updateStatusUI getElementById_updateMasterStatus_other
      degraded_updateDots_other)

lemma loadAILayer_failure:
  assumes "response = NetworkError \<or> response = NotOk \<or> response = BodyNotJson"
  shows "\<exists>c. loadAILayer response s
           = s\<lparr>console := c, page := snd (updateStatusUI degradedHealth (page s))\<rparr>"
  using assms
  by (auto simp: loadAILayer_def tryLoadAILayer_def consoleAdd_def Let_def)

subsection \<open>The overlay and the loaders\<close>

lemma renderRiskPolygons_append:
  "renderRiskPolygons rs ov = ov @ map geoJSON rs"
  unfolding renderRiskPolygons_def
  by (induction rs arbitrary: ov) simp_all



lemma applyAlerts_overlay: "risk_overlay (applyAlerts data s) = risk_overlay s"
  by (simp add: applyAlerts_def split: option.splits)

lemma showFirstRegion_overlay: "risk_overlay (snd (showFirstRegion rs s)) = risk_overlay s"
  by (simp add: showFirstRegion_def updateSidePanel_def split: list.splits option.splits)

lemma applyHealth_overlay: "risk_overlay (snd (applyHealth data s)) = risk_overlay s"
  by (simp add: applyHealth_def split: option.splits prod.splits)

lemma renderResponse_overlay:
  assumes "regions data = Some rs"
  shows "risk_overlay (snd (renderResponse data s)) = risk_overlay s @ map geoJSON rs"
proof -
  let ?s2 = "applyAlerts data (s\<lparr>risk_overlay := renderRiskPolygons rs (risk_overlay s)\<rparr>)"
  obtain err s3 where r3: "showFirstRegion rs ?s2 = (err, s3)"
    by (cases "showFirstRegion rs ?s2")
  have "risk_overlay s3 = risk_overlay ?s2"
    using showFirstRegion_overlay [of rs ?s2] r3 by simp
  then have ov3: "risk_overlay s3 = risk_overlay s @ map geoJSON rs"
    by (simp add: applyAlerts_overlay renderRiskPolygons_append)
  show ?thesis
    using assms r3 ov3
    by (cases err) (simp_all add: renderResponse_def Let_def applyHealth_overlay)
qed

lemma loadAILayer_overlay:
  "risk_overlay (loadAILayer response s) = risk_overlay (snd (tryLoadAILayer response s))"
  by (simp add: loadAILayer_def consoleAdd_def Let_def split: prod.splits option.splits)

lemma loadAILayer_Json_overlay:
  "regions data = Some rs \<Longrightarrow>
   risk_overlay (loadAILayer (Json data) s) = risk_overlay s @ map geoJSON rs"
  by (simp add: loadAILayer_overlay tryLoadAILayer_def Let_def renderResponse_overlay consoleAdd_def)

lemma tryLoadAILayer_regions:
  "fst (tryLoadAILayer (Json data) s) = None \<Longrightarrow> \<exists>rs. regions data = Some rs"
  by (cases "regions data") (simp_all add: tryLoadAILayer_def Let_def renderResponse_def)

lemma addPoints_frame:
  "page (snd (addPoints pts s)) = page s
   \<and> risk_overlay (snd (addPoints pts s)) = risk_overlay s
   \<and> feedContainer (snd (addPoints pts s)) = feedContainer s
   \<and> sidePanel (snd (addPoints pts s)) = sidePanel s"
  by (induction pts arbitrary: s)
     (auto simp: addToGroup_def split: option.splits prod.splits layer_group.splits)

lemma tryLoadInfrastructure_frame:
  "page (snd (tryLoadInfrastructure r s)) = page s
   \<and> risk_overlay (snd (tryLoadInfrastructure r s)) = risk_overlay s
   \<and> feedContainer (snd (tryLoadInfrastructure r s)) = feedContainer s
   \<and> sidePanel (snd (tryLoadInfrastructure r s)) = sidePanel s"
  by (auto simp: tryLoadInfrastructure_def consoleAdd_def Let_def addPoints_frame
      split: fetched.splits option.splits)

lemma loadInfrastructure_cases:
  "loadInfrastructure r s =
     (case fst (tryLoadInfrastructure r s) of
        None \<Rightarrow> snd (tryLoadInfrastructure r s)
      | Some err \<Rightarrow> consoleAdd (ConsoleError ''Infrastructure loading failed:'' err)
                     (snd (tryLoadInfrastructure r s)))"
  by (simp add: loadInfrastructure_def split: prod.splits option.splits)

subsection \<open>The scan for grid references\<close>













subsection \<open>One update on two pages\<close>






























section \<open>Risk classification\<close>



section \<open>Health aggregation\<close>

text \<open>
  C1, as the code has it. The aggregate is taken over the row dots of the page, not over
  the entries of a signal set: with a master light on the page, a red row dot gives
  \<^verbatim>\<open>red\<close> and \<^verbatim>\<open>System Offline\<close>; otherwise a yellow one gives \<^verbatim>\<open>yellow\<close> and
  \<^verbatim>\<open>Syncing Data...\<close>; otherwise, also with no row dot at all, the light is \<^verbatim>\<open>active\<close> and
  the text \<^verbatim>\<open>Live Model Connected\<close>. The text is written where the page has a
  \<^verbatim>\<open>status-text\<close>. Exactly one of the three cases applies to every page.
\<close>

theorem master_status_precedence:
  assumes "getElementById ''master-status-light'' d \<noteq> None"
  shows "(anyRowDot ''red'' d \<longrightarrow>
            masterLightClasses (updateMasterStatus d) = Some [''status-dot'', ''red''] \<and>
            statusText (updateMasterStatus d) = map_option (\<lambda>_. ''System Offline'') (statusText d))
       \<and> (\<not> anyRowDot ''red'' d \<and> anyRowDot ''yellow'' d \<longrightarrow>
            masterLightClasses (updateMasterStatus d) = Some [''status-dot'', ''yellow''] \<and>
            statusText (updateMasterStatus d) = map_option (\<lambda>_. ''Syncing Data...'') (statusText d))
       \<and> (\<not> anyRowDot ''red'' d \<and> \<not> anyRowDot ''yellow'' d \<longrightarrow>
            masterLightClasses (updateMasterStatus d) = Some [''status-dot'', ''active''] \<and>
            statusText (updateMasterStatus d)
              = map_option (\<lambda>_. ''Live Model Connected'') (statusText d))"
  using assms
  by (auto simp: updateMasterStatus_eq masterLightClasses_set statusText_set)

theorem master_status_precedence_witness:
  "getElementById ''master-status-light'' boardPage \<noteq> None
   \<and> \<not> anyRowDot ''red'' boardPage \<and> \<not> anyRowDot ''yellow'' boardPage
   \<and> statusText (updateMasterStatus boardPage) = Some ''Live Model Connected''
   \<and> anyRowDot ''red'' (snd (updateDots [(''us_data'', ''red''), (''integrity'', ''yellow'')] boardPage))
   \<and> statusText (updateMasterStatus
        (snd (updateDots [(''us_data'', ''red''), (''integrity'', ''yellow'')] boardPage)))
       = Some ''System Offline''
   \<and> anyRowDot ''yellow'' (snd (updateDots [(''integrity'', ''yellow'')] boardPage))
   \<and> masterLightClasses (updateMasterStatus
        (snd (updateDots [(''integrity'', ''yellow'')] boardPage)))
       = Some [''status-dot'', ''yellow'']"
  using master_status_precedence [of boardPage]
        master_status_precedence
          [of "snd (updateDots [(''us_data'', ''red''), (''integrity'', ''yellow'')] boardPage)"]
        master_status_precedence [of "snd (updateDots [(''integrity'', ''yellow'')] boardPage)"]
  by code_simp

text \<open>
  The claim as stated fails: the specification's own example, a set with the sources
  \<^verbatim>\<open>a\<close> (green) and \<^verbatim>\<open>b\<close> (red), leaves every row dot alone and ends green.
\<close>

theorem red_signal_of_unlisted_source_ends_green:
  "fst (updateStatusUI [(''a'', ''green''), (''b'', ''red'')] boardPage) = None
   \<and> masterLightClasses (snd (updateStatusUI [(''a'', ''green''), (''b'', ''red'')] boardPage))
       = Some [''status-dot'', ''active'']
   \<and> statusText (snd (updateStatusUI [(''a'', ''green''), (''b'', ''red'')] boardPage))
       = Some ''Live Model Connected''"
  by code_simp

section \<open>Unknown source names\<close>



section \<open>A failed prediction refresh\<close>

text \<open>
  C4. When the fetch is rejected, the response is not ok or its body is not JSON, the
  overlay of regions, the feed and the side panel are as before, and the status update
  runs with the fixed degraded health: the dots of \<^verbatim>\<open>us_data\<close>, \<^verbatim>\<open>canada_data\<close> and
  \<^verbatim>\<open>integrity\<close> that the page has are red, the dot of \<^verbatim>\<open>maritime\<close> is reset to green, the
  dot of \<^verbatim>\<open>infrastructure\<close> is not touched, nothing is thrown; and with a master light
  and one of the three remote dots on the page the master status is red,
  \<^verbatim>\<open>System Offline\<close>.
\<close>

theorem failed_refresh_keeps_data_and_degrades_health:
  assumes "response = NetworkError \<or> response = NotOk \<or> response = BodyNotJson"
  shows "risk_overlay (loadAILayer response s) = risk_overlay s
       \<and> feedContainer (loadAILayer response s) = feedContainer s
       \<and> sidePanel (loadAILayer response s) = sidePanel s
       \<and> page (loadAILayer response s) = snd (updateStatusUI degradedHealth (page s))
       \<and> fst (updateStatusUI degradedHealth (page s)) = None
       \<and> (\<forall>i\<in>{''dot-us'', ''dot-canada'', ''dot-gbif''}.
             map_option classList (getElementById i (page (loadAILayer response s)))
               = map_option (\<lambda>_. [''status-row-dot'', ''red'']) (getElementById i (page s)))
       \<and> map_option classList (getElementById ''dot-maritime'' (page (loadAILayer response s)))
           = map_option (\<lambda>_. [''status-row-dot'']) (getElementById ''dot-maritime'' (page s))
       \<and> getElementById ''dot-glfc'' (page (loadAILayer response s))
           = getElementById ''dot-glfc'' (page s)
       \<and> (getElementById ''master-status-light'' (page s) \<noteq> None
            \<and> (getElementById ''dot-us'' (page s) \<noteq> None
                \<or> getElementById ''dot-canada'' (page s) \<noteq> None
                \<or> getElementById ''dot-gbif'' (page s) \<noteq> None) \<longrightarrow>
            masterLightClasses (page (loadAILayer response s)) = Some [''status-dot'', ''red'']
            \<and> statusText (page (loadAILayer response s))
                = map_option (\<lambda>_. ''System Offline'') (statusText (page s)))"
proof -
  from loadAILayer_failure [OF assms, of s] obtain c where
    eq: "loadAILayer response s
           = s\<lparr>console := c, page := snd (updateStatusUI degradedHealth (page s))\<rparr>" ..
  have pg: "page (loadAILayer response s) = snd (updateStatusUI degradedHealth (page s))"
    by (simp add: eq)
  have frame: "risk_overlay (loadAILayer response s) = risk_overlay s"
    "feedContainer (loadAILayer response s) = feedContainer s"
    "sidePanel (loadAILayer response s) = sidePanel s"
    by (simp_all add: eq)
  have red: "\<forall>i\<in>{''dot-us'', ''dot-canada'', ''dot-gbif''}.
             map_option classList (getElementById i (page (loadAILayer response s)))
               = map_option (\<lambda>_. [''status-row-dot'', ''red'']) (getElementById i (page s))"
    unfolding pg using degraded_dot_red [of _ "page s"] by blast
  have master: "masterLightClasses (page (loadAILayer response s)) = Some [''status-dot'', ''red'']
            \<and> statusText (page (loadAILayer response s))
                = map_option (\<lambda>_. ''System Offline'') (statusText (page s))"
    if "getElementById ''master-status-light'' (page s) \<noteq> None"
       "getElementById ''dot-us'' (page s) \<noteq> None
                \<or> getElementById ''dot-canada'' (page s) \<noteq> None
                \<or> getElementById ''dot-gbif'' (page s) \<noteq> None"
    unfolding pg using that by (rule degraded_master_red)
  show ?thesis
    using frame pg red master degradedHealth_no_throw [of "page s"]
      degraded_dot_maritime [of "page s"] degraded_dot_glfc [of "page s"]
    by (simp only: simp_thms) blast
qed

theorem failed_refresh_keeps_data_and_degrades_health_witness:
  "risk_overlay (loadAILayer NetworkError
       (loadAILayer (Json (samplePayload [sampleRegion (Some ''grid-001'') (9/10)])) startState))
     = [geoJSON (sampleRegion (Some ''grid-001'') (9/10))]
   \<and> map_option classList (getElementById ''dot-us'' (page (loadAILayer NetworkError
       (loadAILayer (Json (samplePayload [sampleRegion (Some ''grid-001'') (9/10)])) startState))))
     = Some [''status-row-dot'', ''red'']
   \<and> map_option classList (getElementById ''dot-maritime'' (page (loadAILayer NetworkError
       (loadAILayer (Json (samplePayload [sampleRegion (Some ''grid-001'') (9/10)])) startState))))
     = Some [''status-row-dot'']
   \<and> statusText (page (loadAILayer NetworkError
       (loadAILayer (Json (samplePayload [sampleRegion (Some ''grid-001'') (9/10)])) startState)))
     = Some ''System Offline''"
  using failed_refresh_keeps_data_and_degrades_health
          [of NetworkError
              "loadAILayer (Json (samplePayload [sampleRegion (Some ''grid-001'') (9/10)])) startState"]
  by code_simp

section \<open>A failed infrastructure refresh\<close>

text \<open>
  C9. Whatever the infrastructure fetch comes to, \<^verbatim>\<open>loadInfrastructure\<close> leaves the page
  as it is, so every row dot (the one of \<^verbatim>\<open>integrity\<close> too), the master light and the
  status text, and it leaves the overlay of regions, the feed and the side panel. When it
  fails, the last thing it does is to log the error.
\<close>

theorem infrastructure_failure_only_logged:
  "page (loadInfrastructure r s) = page s
   \<and> getElementById ''dot-gbif'' (page (loadInfrastructure r s)) = getElementById ''dot-gbif'' (page s)
   \<and> masterLightClasses (page (loadInfrastructure r s)) = masterLightClasses (page s)
   \<and> statusText (page (loadInfrastructure r s)) = statusText (page s)
   \<and> risk_overlay (loadInfrastructure r s) = risk_overlay s
   \<and> feedContainer (loadInfrastructure r s) = feedContainer s
   \<and> sidePanel (loadInfrastructure r s) = sidePanel s
   \<and> (\<forall>err. fst (tryLoadInfrastructure r s) = Some err \<longrightarrow>
         console (loadInfrastructure r s)
           = console (snd (tryLoadInfrastructure r s))
             @ [ConsoleError ''Infrastructure loading failed:'' err])"
proof -
  have pg: "page (loadInfrastructure r s) = page s"
    using tryLoadInfrastructure_frame [of r s]
    by (simp add: loadInfrastructure_cases consoleAdd_def split: option.splits)
  have rest: "risk_overlay (loadInfrastructure r s) = risk_overlay s"
    "feedContainer (loadInfrastructure r s) = feedContainer s"
    "sidePanel (loadInfrastructure r s) = sidePanel s"
    using tryLoadInfrastructure_frame [of r s]
    by (simp_all add: loadInfrastructure_cases consoleAdd_def split: option.splits)
  have logged: "console (loadInfrastructure r s)
           = console (snd (tryLoadInfrastructure r s))
             @ [ConsoleError ''Infrastructure loading failed:'' err]"
    if "fst (tryLoadInfrastructure r s) = Some err" for err
    using that by (simp add: loadInfrastructure_cases consoleAdd_def)
  show ?thesis using pg rest logged by simp
qed

theorem infrastructure_failure_only_logged_witness:
  "fst (tryLoadInfrastructure (Json (Some [samplePoint (Some ''barrier''), samplePoint None]))
         startState) = Some TypeError
   \<and> page (loadInfrastructure (Json (Some [samplePoint (Some ''barrier''), samplePoint None]))
         startState) = boardPage
   \<and> console (loadInfrastructure (Json (Some [samplePoint (Some ''barrier''), samplePoint None]))
         startState)
       = [ConsoleLog ''Fetching GLFC Infrastructure from: http://127.0.0.1:8000/infrastructure'',
          ConsoleError ''Infrastructure loading failed:'' TypeError]
   \<and> length (barriers (loadInfrastructure
         (Json (Some [samplePoint (Some ''barrier''), samplePoint None])) startState)) = 1"
proof -
  let ?r = "Json (Some [samplePoint (Some ''barrier''), samplePoint None])"
  note frame = infrastructure_failure_only_logged [of ?r startState]
  have failed: "fst (tryLoadInfrastructure ?r startState) = Some TypeError"
    by code_simp
  have before: "console (snd (tryLoadInfrastructure ?r startState))
      = [ConsoleLog ''Fetching GLFC Infrastructure from: http://127.0.0.1:8000/infrastructure'']"
    by code_simp
  have markers: "length (barriers (loadInfrastructure ?r startState)) = 1"
    by code_simp
  from frame failed have "console (loadInfrastructure ?r startState)
      = console (snd (tryLoadInfrastructure ?r startState))
        @ [ConsoleError ''Infrastructure loading failed:'' TypeError]"
    by blast
  moreover from frame have "page (loadInfrastructure ?r startState) = page startState"
    by blast
  ultimately show ?thesis
    using failed before markers by (simp add: startState_def)
qed

section \<open>A successful prediction refresh\<close>

text \<open>
  C2, as the code has it. A refresh that runs through without an exception adds the layers
  of the response's regions, in their order, behind the layers the overlay already holds;
  nothing is removed. On an empty overlay, which is what the one refresh the script itself
  starts finds, the overlay then holds the layers of the batch and nothing else.
\<close>

theorem successful_refresh_appends_regions:
  assumes "fst (tryLoadAILayer (Json data) s) = None"
  shows "\<exists>rs. regions data = Some rs
           \<and> risk_overlay (loadAILayer (Json data) s) = risk_overlay s @ map geoJSON rs
           \<and> (risk_overlay s = [] \<longrightarrow> risk_overlay (loadAILayer (Json data) s) = map geoJSON rs)"
proof -
  from tryLoadAILayer_regions [OF assms] obtain rs where rs: "regions data = Some rs" ..
  then have "risk_overlay (loadAILayer (Json data) s) = risk_overlay s @ map geoJSON rs"
    by (rule loadAILayer_Json_overlay)
  with rs show ?thesis by simp
qed

theorem successful_refresh_appends_regions_witness:
  "fst (tryLoadAILayer (Json (samplePayload [sampleRegion (Some ''grid-001'') (9/10),
                                             sampleRegion (Some ''grid-002'') (3/10)]))
         startState) = None
   \<and> map regionId (risk_overlay (loadAILayer
         (Json (samplePayload [sampleRegion (Some ''grid-001'') (9/10),
                               sampleRegion (Some ''grid-002'') (3/10)])) startState))
       = [Some ''grid-001'', Some ''grid-002'']"
proof -
  let ?data = "samplePayload [sampleRegion (Some ''grid-001'') (9/10),
                              sampleRegion (Some ''grid-002'') (3/10)]"
  have ok: "fst (tryLoadAILayer (Json ?data) startState) = None"
    by code_simp
  have rs: "regions ?data = Some [sampleRegion (Some ''grid-001'') (9/10),
                                  sampleRegion (Some ''grid-002'') (3/10)]"
    by (simp add: samplePayload_def)
  have empty: "risk_overlay startState = []"
    by (simp add: startState_def)
  from successful_refresh_appends_regions [OF ok] rs empty
  have "risk_overlay (loadAILayer (Json ?data) startState)
          = map geoJSON [sampleRegion (Some ''grid-001'') (9/10),
                         sampleRegion (Some ''grid-002'') (3/10)]"
    by auto
  with ok show ?thesis
    by (simp add: geoJSON_def sampleRegion_def)
qed

text \<open>
  The claim as stated fails on a second refresh: the region of the first response is
  still on the map beside the region of the second, and neither refresh failed.
\<close>

theorem second_refresh_keeps_old_regions:
  "map regionId (risk_overlay
      (loadAILayer (Json (samplePayload [sampleRegion (Some ''grid-002'') (3/10)]))
        (loadAILayer (Json (samplePayload [sampleRegion (Some ''grid-001'') (9/10)])) startState)))
     = [Some ''grid-001'', Some ''grid-002'']
   \<and> fst (tryLoadAILayer (Json (samplePayload [sampleRegion (Some ''grid-001'') (9/10)]))
            startState) = None
   \<and> fst (tryLoadAILayer (Json (samplePayload [sampleRegion (Some ''grid-002'') (3/10)]))
            (loadAILayer (Json (samplePayload [sampleRegion (Some ''grid-001'') (9/10)]))
               startState)) = None"
  by code_simp

section \<open>Regions are not validated\<close>




section \<open>Resolving a grid link\<close>




section \<open>Grid references in alert text\<close>



section \<open>Equal signal sets, equal status\<close>




end
